theory Spec2Isabelle
  imports Main "HOL-Library.Word"
begin

section \<open>JavaScript strings\<close>

text \<open>
  A JavaScript string is a sequence of UTF-16 code units. String literals of
  \<^verbatim>\<open>reminders.js\<close> that are plain ASCII are written through \<open>ascii\<close>; the
  non-ASCII characters of the file are written as their code units.
\<close>

type_synonym jsstring = "16 word list"

definition ascii :: "string \<Rightarrow> jsstring" where
  "ascii s = map of_char s"

text \<open>
  \<^verbatim>\<open>String.prototype.trim\<close> strips the WhiteSpace and LineTerminator code points
  of ECMAScript from both ends; all of them are single code units.
\<close>

definition isWhiteSpace :: "16 word \<Rightarrow> bool" where
  "isWhiteSpace c = (c \<in> set [0x09, 0x0A, 0x0B, 0x0C, 0x0D, 0x20, 0xA0, 0x1680,
      0x2000, 0x2001, 0x2002, 0x2003, 0x2004, 0x2005, 0x2006, 0x2007, 0x2008, 0x2009,
      0x200A, 0x2028, 0x2029, 0x202F, 0x205F, 0x3000, 0xFEFF])"

definition trim :: "jsstring \<Rightarrow> jsstring" where
  "trim s = rev (dropWhile isWhiteSpace (rev (dropWhile isWhiteSpace s)))"

text \<open>\<^verbatim>\<open>Array.prototype.join\<close> on an array of strings.\<close>

fun join :: "jsstring \<Rightarrow> jsstring list \<Rightarrow> jsstring" where
  "join sep [] = []"
| "join sep [x] = x"
| "join sep (x # y # ys) = x @ sep @ join sep (y # ys)"

text \<open>
  \<^verbatim>\<open>join\<close> renders an element that is \<^verbatim>\<open>undefined\<close> or \<^verbatim>\<open>null\<close> as the
  empty string; \<open>x || ""\<close> does the same for a missing string.
\<close>

definition orEmpty :: "jsstring option \<Rightarrow> jsstring" where
  "orEmpty x = (case x of None \<Rightarrow> [] | Some s \<Rightarrow> s)"

definition startsWith :: "jsstring \<Rightarrow> jsstring \<Rightarrow> bool" where
  "startsWith s p = (take (length p) s = p)"

text \<open>
  \<^verbatim>\<open>toLowerCase\<close> on the ASCII letters. No other code unit lower-cases to one of
  \<open>t\<close>, \<open>r\<close>, \<open>u\<close>, \<open>e\<close>, and the model is used only in the comparison with
  \<^verbatim>\<open>"true"\<close> of the configuration.
\<close>

definition toLowerCase :: "jsstring \<Rightarrow> jsstring" where
  "toLowerCase s = map (\<lambda>c. if 0x41 \<le> c \<and> c \<le> 0x5A then c + 0x20 else c) s"

section \<open>JavaScript numbers of the configuration\<close>

text \<open>
  \<^verbatim>\<open>parseInt(s, 10)\<close> gives \<^verbatim>\<open>NaN\<close> or an integer; a template literal renders
  it in decimal (integers of magnitude below \<open>10^21\<close>, which is where JavaScript
  switches to exponent notation).
\<close>

datatype jsnumber = NaN | Num int

function digits :: "nat \<Rightarrow> jsstring" where
  "digits n = (if n < 10 then [0x30 + of_nat n] else digits (n div 10) @ [0x30 + of_nat (n mod 10)])"
  by pat_completeness auto
termination
  by (relation "measure id") auto

declare digits.simps [simp del]

fun toString :: "jsnumber \<Rightarrow> jsstring" where
  "toString NaN = ascii ''NaN''"
| "toString (Num n) = (if n < 0 then ascii ''-'' @ digits (nat (- n)) else digits (nat n))"

section \<open>Records of the task database\<close>

text \<open>
  A page of the database as the Notion client returns it: \<^verbatim>\<open>page.properties\<close> maps a
  property name to a property object, which carries its \<^verbatim>\<open>type\<close> tag and the
  payload of that type. A field that is \<^verbatim>\<open>undefined\<close> or \<^verbatim>\<open>null\<close> is \<open>None\<close>.
\<close>

record rich_text =
  plain_text :: "jsstring option"

record option_object =
  name :: "jsstring option"

record date_object =
  start :: "jsstring option"

record property =
  prop_type :: jsstring
  prop_title :: "rich_text list option"
  prop_select :: "option_object option"
  prop_status :: "option_object option"
  prop_date :: "date_object option"

record page =
  properties :: "(jsstring \<times> property) list option"

section \<open>Configuration\<close>

text \<open>The module-level constants that \<^verbatim>\<open>reminders.js\<close> reads from the environment.\<close>

record config =
  SLACK_WEBHOOK_URL :: jsstring
  SLACK_BOT_TOKEN :: jsstring
  LOOKAHEAD_DAYS :: jsnumber
  POST_WHEN_EMPTY :: bool
  DONE_STATUS_NAME :: jsstring
  DM_TARGETS :: "jsstring list"

text \<open>
  \<^verbatim>\<open>(process.env.POST_WHEN_EMPTY || "true").toLowerCase() === "true"\<close> and
  \<^verbatim>\<open>process.env.DONE_STATUS_NAME || "Done"\<close>, on a variable that is unset (\<open>None\<close>)
  or set.
\<close>

definition orDefault :: "jsstring option \<Rightarrow> jsstring \<Rightarrow> jsstring" where
  "orDefault x d = (case x of None \<Rightarrow> d | Some s \<Rightarrow> if s = [] then d else s)"

definition env_POST_WHEN_EMPTY :: "jsstring option \<Rightarrow> bool" where
  "env_POST_WHEN_EMPTY v = (toLowerCase (orDefault v (ascii ''true'')) = ascii ''true'')"

definition env_DONE_STATUS_NAME :: "jsstring option \<Rightarrow> jsstring" where
  "env_DONE_STATUS_NAME v = orDefault v (ascii ''Done'')"

text \<open>\<^verbatim>\<open>const slack = SLACK_BOT_TOKEN ? new SlackWebClient(SLACK_BOT_TOKEN) : null\<close>\<close>

definition slack :: "config \<Rightarrow> bool" where
  "slack cfg = (SLACK_BOT_TOKEN cfg \<noteq> [])"

definition PROP_TITLE :: jsstring where "PROP_TITLE = ascii ''Name''"
definition PROP_NEXT_DUE :: jsstring where "PROP_NEXT_DUE = ascii ''Next due''"
definition PROP_STATUS :: jsstring where "PROP_STATUS = ascii ''Status''"
definition PROP_TYPE :: jsstring where "PROP_TYPE = ascii ''Type''"
definition PROP_ENV :: jsstring where "PROP_ENV = ascii ''Environment''"

section \<open>Helpers\<close>

text \<open>\<^verbatim>\<open>page.properties?.[propName]\<close>\<close>

definition getProp :: "page \<Rightarrow> jsstring \<Rightarrow> property option" where
  "getProp pg propName = (case properties pg of None \<Rightarrow> None | Some ps \<Rightarrow> map_of ps propName)"

definition Untitled :: jsstring where
  "Untitled = ascii ''(Untitled)''"

definition getTitle :: "page \<Rightarrow> jsstring" where
  "getTitle pg =
     (case getProp pg PROP_TITLE of
        None \<Rightarrow> Untitled
      | Some prop \<Rightarrow>
          if prop_type prop \<noteq> ascii ''title'' then Untitled
          else let t = trim (join [] (map (\<lambda>t. orEmpty (plain_text t))
                                        (case prop_title prop of None \<Rightarrow> [] | Some ts \<Rightarrow> ts)))
               in if t = [] then Untitled else t)"

text \<open>\<^verbatim>\<open>x?.f || null\<close>: a missing object, a missing field and the empty string all give \<open>None\<close>.\<close>

definition orNull :: "jsstring option \<Rightarrow> jsstring option" where
  "orNull x = (case x of None \<Rightarrow> None | Some s \<Rightarrow> if s = [] then None else Some s)"

definition getDate :: "page \<Rightarrow> jsstring \<Rightarrow> jsstring option" where
  "getDate pg propName =
     (case getProp pg propName of
        None \<Rightarrow> None
      | Some prop \<Rightarrow>
          if prop_type prop = ascii ''date''
          then orNull (case prop_date prop of None \<Rightarrow> None | Some d \<Rightarrow> start d)
          else None)"

definition optionName :: "option_object option \<Rightarrow> jsstring" where
  "optionName x = orEmpty (case x of None \<Rightarrow> None | Some ob \<Rightarrow> name ob)"

definition getSelectName :: "page \<Rightarrow> jsstring \<Rightarrow> jsstring" where
  "getSelectName pg propName =
     (case getProp pg propName of
        None \<Rightarrow> []
      | Some prop \<Rightarrow>
          if prop_type prop = ascii ''select'' then optionName (prop_select prop) else [])"

definition getStatusName :: "page \<Rightarrow> jsstring \<Rightarrow> jsstring" where
  "getStatusName pg propName =
     (case getProp pg propName of
        None \<Rightarrow> []
      | Some prop \<Rightarrow>
          if prop_type prop = ascii ''select'' then optionName (prop_select prop)
          else if prop_type prop = ascii ''status'' then optionName (prop_status prop)
          else [])"

section \<open>Grouping by due date\<close>

text \<open>
  A JavaScript \<^verbatim>\<open>Map\<close> iterates in insertion order, so the groups are an association
  list: \<^verbatim>\<open>has\<close>, \<^verbatim>\<open>set\<close> (a new key goes to the end, an old key keeps its place)
  and \<^verbatim>\<open>groups.get(key).push(p)\<close>.

  \<^verbatim>\<open>dayjs(due).format("YYYY-MM-DD")\<close> belongs to the dayjs library; it is the
  parameter \<open>fmt\<close>.
\<close>

type_synonym groups = "(jsstring \<times> page list) list"

definition map_has :: "groups \<Rightarrow> jsstring \<Rightarrow> bool" where
  "map_has g k = (map_of g k \<noteq> None)"

fun map_set :: "groups \<Rightarrow> jsstring \<Rightarrow> page list \<Rightarrow> groups" where
  "map_set [] k v = [(k, v)]"
| "map_set ((k', v') # g) k v = (if k' = k then (k, v) # g else (k', v') # map_set g k v)"

fun get_push :: "groups \<Rightarrow> jsstring \<Rightarrow> page \<Rightarrow> groups" where
  "get_push [] k p = []"
| "get_push ((k', v') # g) k p = (if k' = k then (k', v' @ [p]) # g else (k', v') # get_push g k p)"

definition dueKey :: "(jsstring \<Rightarrow> jsstring) \<Rightarrow> page \<Rightarrow> jsstring" where
  "dueKey fmt p = (case getDate p PROP_NEXT_DUE of None \<Rightarrow> ascii ''No due date'' | Some due \<Rightarrow> fmt due)"

definition group_step :: "(jsstring \<Rightarrow> jsstring) \<Rightarrow> groups \<Rightarrow> page \<Rightarrow> groups" where
  "group_step fmt g p =
     (let key = dueKey fmt p;
          g1 = (if \<not> map_has g key then map_set g key [] else g)
      in get_push g1 key p)"

definition groupByDueDate :: "(jsstring \<Rightarrow> jsstring) \<Rightarrow> page list \<Rightarrow> groups" where
  "groupByDueDate fmt items = foldl (group_step fmt) [] items"

section \<open>The digest\<close>

text \<open>
  The non-ASCII characters of the template literals, as the code units the file holds:
  the header starts with U+00F0 U+0178 U+201D U+201D, the empty message with
  U+00E2 U+0153 U+2026, the separator of the prefix is U+00E2 U+20AC U+201D and the
  bullet is U+00E2 U+20AC U+00A2.
\<close>

definition header :: "config \<Rightarrow> jsstring" where
  "header cfg = [0xF0, 0x178, 0x201D, 0x201D] @ ascii '' *Privacy & Security Reminders* (next ''
                 @ toString (LOOKAHEAD_DAYS cfg) @ ascii '' days)''"

definition itemLine :: "page \<Rightarrow> jsstring" where
  "itemLine p =
     (let title = getTitle p;
          type = getSelectName p PROP_TYPE;
          env = getSelectName p PROP_ENV;
          status = getStatusName p PROP_STATUS;
          prefixBits = filter (\<lambda>s. s \<noteq> []) [type, env];
          prefix = (if prefixBits \<noteq> [] then join (ascii '' / '') prefixBits @ [0x20, 0xE2, 0x20AC, 0x201D, 0x20] else []);
          statusTxt = (if status \<noteq> [] then ascii '' _(Status: '' @ status @ ascii '')_'' else [])
      in [0xE2, 0x20AC, 0xA2, 0x20] @ prefix @ title @ statusTxt)"

definition groupLines :: "jsstring \<times> page list \<Rightarrow> jsstring list" where
  "groupLines g = ([0x0A] @ ascii ''*'' @ fst g @ ascii ''*'') # map itemLine (snd g)"

definition digestLines :: "groups \<Rightarrow> jsstring list" where
  "digestLines grouped = concat (map groupLines grouped)"

definition formatDigest :: "config \<Rightarrow> (jsstring \<Rightarrow> jsstring) \<Rightarrow> page list \<Rightarrow> jsstring" where
  "formatDigest cfg fmt items =
     (if items = []
      then header cfg @ [0x0A] @ [0xE2, 0x153, 0x2026] @ ascii '' Nothing due in the next ''
             @ toString (LOOKAHEAD_DAYS cfg) @ ascii '' days.''
      else header cfg @ [0x0A] @ join [0x0A] (digestLines (groupByDueDate fmt items)))"

section \<open>Collaborators, effects and errors\<close>

text \<open>
  Every \<^verbatim>\<open>throw\<close> of the file and every rejection of an awaited call is an error
  value. The calls that leave the process, and the pacing timer, are recorded in order
  in a trace.
\<close>

datatype error =
    SourceQueryError jsstring
  | FetchRejected jsstring
  | SlackWebhookFailed nat jsstring
  | SlackApiError jsstring
  | MissingBotToken
  | CouldNotOpenDm jsstring
  | InvalidDmTarget jsstring
  | DmTargetsWithoutBotToken

datatype event =
    NotionQuery
  | WebhookPost jsstring jsstring
  | ConversationsOpen jsstring
  | ChatPostMessage jsstring jsstring
  | Timeout nat

record http_response =
  ok :: bool
  status :: nat
  body :: jsstring

text \<open>
  The collaborators answer a call from its arguments and from everything that happened
  before it (the trace so far): \<open>notion_query\<close> is the outcome of
  \<^verbatim>\<open>notion.databases.query\<close> with its \<^verbatim>\<open>results\<close> field, \<open>webhook_fetch\<close> the
  outcome of \<^verbatim>\<open>fetch\<close>, \<open>conversations_open\<close> gives \<^verbatim>\<open>openResp?.channel?.id\<close>,
  and \<open>chat_postMessage\<close> is \<open>None\<close> when the call resolves.
\<close>

record world =
  notion_query :: "error + page list option"
  webhook_fetch :: "event list \<Rightarrow> jsstring \<Rightarrow> jsstring \<Rightarrow> error + http_response"
  conversations_open :: "event list \<Rightarrow> jsstring \<Rightarrow> error + jsstring option"
  chat_postMessage :: "event list \<Rightarrow> jsstring \<Rightarrow> jsstring \<Rightarrow> error option"

type_synonym 'a io = "event list \<Rightarrow> event list \<times> (error + 'a)"

section \<open>Notion query\<close>

definition fetchDueItems :: "config \<Rightarrow> world \<Rightarrow> page list io" where
  "fetchDueItems cfg w tr =
     (case notion_query w of
        Inl e \<Rightarrow> (tr @ [NotionQuery], Inl e)
      | Inr results \<Rightarrow>
          (tr @ [NotionQuery],
           Inr (filter (\<lambda>p. getStatusName p PROP_STATUS \<noteq> DONE_STATUS_NAME cfg)
                  (case results of None \<Rightarrow> [] | Some rs \<Rightarrow> rs))))"

section \<open>Slack sending\<close>

definition postToSlackWebhook :: "config \<Rightarrow> world \<Rightarrow> jsstring \<Rightarrow> bool io" where
  "postToSlackWebhook cfg w text tr =
     (if SLACK_WEBHOOK_URL cfg = [] then (tr, Inr False)
      else case webhook_fetch w tr (SLACK_WEBHOOK_URL cfg) text of
             Inl e \<Rightarrow> (tr @ [WebhookPost (SLACK_WEBHOOK_URL cfg) text], Inl e)
           | Inr res \<Rightarrow>
               if \<not> ok res
               then (tr @ [WebhookPost (SLACK_WEBHOOK_URL cfg) text],
                     Inl (SlackWebhookFailed (status res) (body res)))
               else (tr @ [WebhookPost (SLACK_WEBHOOK_URL cfg) text], Inr True))"

definition openBotDmWithUser :: "config \<Rightarrow> world \<Rightarrow> jsstring \<Rightarrow> jsstring io" where
  "openBotDmWithUser cfg w userId tr =
     (if \<not> slack cfg then (tr, Inl MissingBotToken)
      else case conversations_open w tr userId of
             Inl e \<Rightarrow> (tr @ [ConversationsOpen userId], Inl e)
           | Inr dmChannelId \<Rightarrow>
               if orEmpty dmChannelId = []
               then (tr @ [ConversationsOpen userId], Inl (CouldNotOpenDm userId))
               else (tr @ [ConversationsOpen userId], Inr (orEmpty dmChannelId)))"

definition postMessage :: "world \<Rightarrow> jsstring \<Rightarrow> jsstring \<Rightarrow> unit io" where
  "postMessage w channel text tr =
     (case chat_postMessage w tr channel text of
        Some e \<Rightarrow> (tr @ [ChatPostMessage channel text], Inl e)
      | None \<Rightarrow> (tr @ [ChatPostMessage channel text], Inr ()))"

definition dmTarget :: "config \<Rightarrow> world \<Rightarrow> jsstring \<Rightarrow> jsstring \<Rightarrow> unit io" where
  "dmTarget cfg w targetId text tr =
     (if \<not> slack cfg then (tr, Inl MissingBotToken)
      else if startsWith targetId (ascii ''D'') then postMessage w targetId text tr
      else if startsWith targetId (ascii ''U'')
      then (case openBotDmWithUser cfg w targetId tr of
              (tr', Inl e) \<Rightarrow> (tr', Inl e)
            | (tr', Inr dmChannelId) \<Rightarrow> postMessage w dmChannelId text tr')
      else (tr, Inl (InvalidDmTarget targetId)))"

section \<open>Main\<close>

record run_result =
  dueCount :: nat
  channelPosted :: bool
  dmsSent :: nat

text \<open>
  The loop \<^verbatim>\<open>for (const target of DM_TARGETS)\<close> of \<^verbatim>\<open>main\<close>, with the counter
  \<^verbatim>\<open>dmsSent\<close> (here \<open>sent\<close>): send, count, then wait 1100 ms.
\<close>

fun dmLoop :: "config \<Rightarrow> world \<Rightarrow> jsstring \<Rightarrow> jsstring list \<Rightarrow> nat \<Rightarrow> nat io" where
  "dmLoop cfg w message [] sent tr = (tr, Inr sent)"
| "dmLoop cfg w message (target # rest) sent tr =
     (case dmTarget cfg w target message tr of
        (tr', Inl e) \<Rightarrow> (tr', Inl e)
      | (tr', Inr u) \<Rightarrow> dmLoop cfg w message rest (sent + 1) (tr' @ [Timeout 1100]))"

definition main :: "config \<Rightarrow> world \<Rightarrow> (jsstring \<Rightarrow> jsstring) \<Rightarrow> event list \<times> (error + run_result)" where
  "main cfg w fmt =
     (case fetchDueItems cfg w [] of
        (tr0, Inl e) \<Rightarrow> (tr0, Inl e)
      | (tr0, Inr items) \<Rightarrow>
          let message = formatDigest cfg fmt items
          in case (if items \<noteq> [] \<or> POST_WHEN_EMPTY cfg
                   then postToSlackWebhook cfg w message tr0 else (tr0, Inr False)) of
               (tr1, Inl e) \<Rightarrow> (tr1, Inl e)
             | (tr1, Inr postedToChannel) \<Rightarrow>
                 if items \<noteq> [] \<and> DM_TARGETS cfg \<noteq> []
                 then (if \<not> slack cfg then (tr1, Inl DmTargetsWithoutBotToken)
                       else case dmLoop cfg w message (DM_TARGETS cfg) 0 tr1 of
                              (tr2, Inl e) \<Rightarrow> (tr2, Inl e)
                            | (tr2, Inr sent) \<Rightarrow>
                                (tr2, Inr \<lparr>dueCount = length items,
                                           channelPosted = postedToChannel,
                                           dmsSent = sent\<rparr>))
                 else (tr1, Inr \<lparr>dueCount = length items,
                                  channelPosted = postedToChannel,
                                  dmsSent = 0\<rparr>))"

text \<open>\<^verbatim>\<open>main().catch(... process.exit(1))\<close>: the exit status of the process.\<close>

definition exitCode :: "event list \<times> (error + run_result) \<Rightarrow> nat" where
  "exitCode r = (case snd r of Inl e \<Rightarrow> 1 | Inr x \<Rightarrow> 0)"

section \<open>Specification-side notions\<close>

text \<open>
  The grouping as the specification words it: the keys in the order of their first
  occurrence in the input, and under each key the subsequence of the input with that key.
\<close>

fun firstOccurrences :: "'a list \<Rightarrow> 'a list" where
  "firstOccurrences [] = []"
| "firstOccurrences (k # ks) = k # filter (\<lambda>k'. k' \<noteq> k) (firstOccurrences ks)"

definition stableGroups :: "(jsstring \<Rightarrow> jsstring) \<Rightarrow> page list \<Rightarrow> groups" where
  "stableGroups fmt items =
     map (\<lambda>k. (k, filter (\<lambda>p. dueKey fmt p = k) items))
       (firstOccurrences (map (dueKey fmt) items))"

text \<open>
  The empty-set message as the specification writes it: the header starts with the bell
  U+1F514 (the surrogate pair D83D DD14) and the second line with the check mark U+2705.
\<close>

definition specHeader :: "jsnumber \<Rightarrow> jsstring" where
  "specHeader lookaheadDays =
     [0xD83D, 0xDD14] @ ascii '' *Privacy & Security Reminders* (next ''
       @ toString lookaheadDays @ ascii '' days)''"

definition specEmptyDigest :: "jsnumber \<Rightarrow> jsstring" where
  "specEmptyDigest lookaheadDays =
     specHeader lookaheadDays @ [0x0A] @ [0x2705] @ ascii '' Nothing due in the next ''
       @ toString lookaheadDays @ ascii '' days.''"

text \<open>What a trace shows: the text a delivery carries, and the events of the DM loop.\<close>

fun sentText :: "event \<Rightarrow> jsstring option" where
  "sentText (WebhookPost url text) = Some text"
| "sentText (ChatPostMessage channel text) = Some text"
| "sentText e = None"

fun isWebhookPost :: "event \<Rightarrow> bool" where
  "isWebhookPost (WebhookPost url text) = True"
| "isWebhookPost e = False"


fun isDmCall :: "event \<Rightarrow> bool" where
  "isDmCall (ConversationsOpen userId) = True"
| "isDmCall (ChatPostMessage channel text) = True"
| "isDmCall e = False"

fun dmEvent :: "jsstring \<Rightarrow> event \<Rightarrow> bool" where
  "dmEvent message (ConversationsOpen userId) = True"
| "dmEvent message (ChatPostMessage channel text) = (text = message)"
| "dmEvent message (Timeout ms) = (ms = 1100)"
| "dmEvent message e = False"

text \<open>
  The channel step of \<^verbatim>\<open>main\<close>,
  \<^verbatim>\<open>(items.length || POST_WHEN_EMPTY) ? await postToSlackWebhook(message) : false\<close>,
  and the events it leaves in the trace.
\<close>

definition channelStep :: "config \<Rightarrow> world \<Rightarrow> page list \<Rightarrow> jsstring \<Rightarrow> bool io" where
  "channelStep cfg w items message tr =
     (if items \<noteq> [] \<or> POST_WHEN_EMPTY cfg then postToSlackWebhook cfg w message tr
      else (tr, Inr False))"

definition channelEvents :: "config \<Rightarrow> page list \<Rightarrow> jsstring \<Rightarrow> event list" where
  "channelEvents cfg items message =
     (if SLACK_WEBHOOK_URL cfg \<noteq> [] \<and> (items \<noteq> [] \<or> POST_WHEN_EMPTY cfg)
      then [WebhookPost (SLACK_WEBHOOK_URL cfg) message] else [])"

section \<open>Example data\<close>

definition titleProperty :: "jsstring \<Rightarrow> property" where
  "titleProperty s =
     \<lparr>prop_type = ascii ''title'', prop_title = Some [\<lparr>plain_text = Some s\<rparr>],
      prop_select = None, prop_status = None, prop_date = None\<rparr>"

definition dateProperty :: "jsstring \<Rightarrow> property" where
  "dateProperty s =
     \<lparr>prop_type = ascii ''date'', prop_title = None, prop_select = None,
      prop_status = None, prop_date = Some \<lparr>start = Some s\<rparr>\<rparr>"

definition statusProperty :: "jsstring \<Rightarrow> property" where
  "statusProperty s =
     \<lparr>prop_type = ascii ''status'', prop_title = None, prop_select = None,
      prop_status = Some \<lparr>name = Some s\<rparr>, prop_date = None\<rparr>"

definition examplePage :: "jsstring \<Rightarrow> jsstring \<Rightarrow> jsstring \<Rightarrow> page" where
  "examplePage t d s =
     \<lparr>properties = Some [(PROP_TITLE, titleProperty t), (PROP_NEXT_DUE, dateProperty d),
                          (PROP_STATUS, statusProperty s)]\<rparr>"

definition pageA :: page where
  "pageA = examplePage (ascii ''A'') (ascii ''2024-01-02'') (ascii ''Open'')"

definition pageB :: page where
  "pageB = examplePage (ascii ''B'') (ascii ''2024-01-01'') (ascii ''Open'')"

definition pageC :: page where
  "pageC = examplePage (ascii ''C'') (ascii ''2024-01-02'') (ascii ''done'')"

definition pageDone :: page where
  "pageDone = examplePage (ascii ''Z'') (ascii ''2024-01-03'') (ascii ''Done'')"

definition pageBlank :: page where
  "pageBlank = \<lparr>properties = Some [(PROP_TITLE, titleProperty (ascii ''  ''))]\<rparr>"

definition pageNamed :: page where
  "pageNamed = \<lparr>properties = Some [(PROP_TITLE, titleProperty (ascii '' Rotate keys ''))]\<rparr>"

text \<open>On a date-only string \<^verbatim>\<open>YYYY-MM-DD\<close>, \<^verbatim>\<open>dayjs(due).format("YYYY-MM-DD")\<close> is that string.\<close>

definition formatDateOnly :: "jsstring \<Rightarrow> jsstring" where
  "formatDateOnly due = due"

definition exampleConfig :: config where
  "exampleConfig =
     \<lparr>SLACK_WEBHOOK_URL = ascii ''https://hooks.example/T1'',
      SLACK_BOT_TOKEN = ascii ''xoxb-1'',
      LOOKAHEAD_DAYS = Num 7,
      POST_WHEN_EMPTY = True,
      DONE_STATUS_NAME = ascii ''Done'',
      DM_TARGETS = [ascii ''D123'', ascii ''U456'', ascii ''D789'']\<rparr>"

definition noTokenConfig :: config where
  "noTokenConfig = exampleConfig\<lparr>SLACK_BOT_TOKEN := []\<rparr>"

definition noWebhookConfig :: config where
  "noWebhookConfig = exampleConfig\<lparr>SLACK_WEBHOOK_URL := []\<rparr>"

definition quietConfig :: config where
  "quietConfig = exampleConfig\<lparr>POST_WHEN_EMPTY := False\<rparr>"

text \<open>A world in which the query returns the given pages and every call succeeds.\<close>

definition okWorld :: "page list \<Rightarrow> world" where
  "okWorld rs =
     \<lparr>notion_query = Inr (Some rs),
      webhook_fetch = (\<lambda>tr url text. Inr \<lparr>ok = True, status = 200, body = ascii ''ok''\<rparr>),
      conversations_open = (\<lambda>tr userId. Inr (Some (ascii ''D900''))),
      chat_postMessage = (\<lambda>tr channel text. None)\<rparr>"

section \<open>Strings and the title extractor\<close>

lemma join_empty_sep: "join [] xs = concat xs"
  by (induction "[]::jsstring" xs rule: join.induct) auto

lemma Ball_dropWhile: "(\<forall>x\<in>set (dropWhile P xs). P x) = (\<forall>x\<in>set xs. P x)"
  by (induction xs) auto

lemma trim_empty_iff: "(trim s = []) = (\<forall>c\<in>set s. isWhiteSpace c)"
  by (simp add: trim_def Ball_dropWhile)

lemma Untitled_nonempty: "Untitled \<noteq> []"
  by (simp add: Untitled_def ascii_def)

text \<open>
  Claim C7. For every record the title extractor returns a non-empty string: the
  placeholder \<^verbatim>\<open>(Untitled)\<close> when the title attribute is absent, when it is not of
  type \<^verbatim>\<open>title\<close>, and when the concatenated plain text of its fragments is empty or
  all whitespace; otherwise that concatenation, trimmed. The extractor is a total
  function of the record: it has no failing branch.
\<close>

theorem getTitle_total:
  "getTitle pg \<noteq> [] \<and>
   (getProp pg PROP_TITLE = None \<longrightarrow> getTitle pg = ascii ''(Untitled)'') \<and>
   (\<forall>pr. getProp pg PROP_TITLE = Some pr \<longrightarrow>
      (prop_type pr \<noteq> ascii ''title'' \<longrightarrow> getTitle pg = ascii ''(Untitled)'') \<and>
      (prop_type pr = ascii ''title'' \<longrightarrow>
         (let s = concat (map (\<lambda>t. orEmpty (plain_text t))
                      (case prop_title pr of None \<Rightarrow> [] | Some ts \<Rightarrow> ts))
          in getTitle pg = (if \<forall>c\<in>set s. isWhiteSpace c then ascii ''(Untitled)'' else trim s))))"
proof (intro conjI allI impI)
  show "getTitle pg \<noteq> []"
    by (auto simp: getTitle_def Let_def Untitled_nonempty split: option.splits)
next
  assume "getProp pg PROP_TITLE = None"
  then show "getTitle pg = ascii ''(Untitled)''"
    by (simp add: getTitle_def Untitled_def)
next
  fix pr
  assume "getProp pg PROP_TITLE = Some pr" "prop_type pr \<noteq> ascii ''title''"
  then show "getTitle pg = ascii ''(Untitled)''"
    by (simp add: getTitle_def Untitled_def)
next
  fix pr
  assume "getProp pg PROP_TITLE = Some pr" "prop_type pr = ascii ''title''"
  then show "let s = concat (map (\<lambda>t. orEmpty (plain_text t))
                      (case prop_title pr of None \<Rightarrow> [] | Some ts \<Rightarrow> ts))
          in getTitle pg = (if \<forall>c\<in>set s. isWhiteSpace c then ascii ''(Untitled)'' else trim s)"
    unfolding getTitle_def Let_def join_empty_sep
    by (simp only: trim_empty_iff [symmetric] Untitled_def option.case if_True if_False simp_thms split: if_splits)
qed

theorem getTitle_total_witness:
  "getProp pageBlank PROP_TITLE = Some (titleProperty (ascii ''  '')) \<and>
   prop_type (titleProperty (ascii ''  '')) = ascii ''title'' \<and>
   getTitle pageBlank = ascii ''(Untitled)'' \<and>
   getProp pageNamed PROP_TITLE = Some (titleProperty (ascii '' Rotate keys '')) \<and>
   getTitle pageNamed = ascii ''Rotate keys''"
proof -
  have b: "getProp pageBlank PROP_TITLE = Some (titleProperty (ascii ''  ''))"
    by (simp add: pageBlank_def getProp_def)
  have n: "getProp pageNamed PROP_TITLE = Some (titleProperty (ascii '' Rotate keys ''))"
    by (simp add: pageNamed_def getProp_def)
  have ty: "prop_type (titleProperty s) = ascii ''title''" for s
    by (simp add: titleProperty_def)
  have frag: "concat (map (\<lambda>t. orEmpty (plain_text t))
                (case prop_title (titleProperty s) of None \<Rightarrow> [] | Some ts \<Rightarrow> ts)) = s" for s
    by (simp add: titleProperty_def orEmpty_def)
  have wb: "\<forall>c\<in>set (ascii ''  ''). isWhiteSpace c"
    by code_simp
  have wn: "\<not> (\<forall>c\<in>set (ascii '' Rotate keys ''). isWhiteSpace c)"
    by code_simp
  have trn: "trim (ascii '' Rotate keys '') = ascii ''Rotate keys''"
    by code_simp
  note tb0 = getTitle_total [of pageBlank, THEN conjunct2, THEN conjunct2, rule_format, OF b,
      THEN conjunct2, rule_format, OF ty, unfolded Let_def frag]
  have tb: "getTitle pageBlank = ascii ''(Untitled)''"
    using tb0 by (simp only: if_P [OF wb])
  note tn0 = getTitle_total [of pageNamed, THEN conjunct2, THEN conjunct2, rule_format, OF n,
      THEN conjunct2, rule_format, OF ty, unfolded Let_def frag]
  have tn: "getTitle pageNamed = ascii ''Rotate keys''"
    using tn0 by (simp only: if_not_P [OF wn] trn)
  from b n ty tb tn show ?thesis by simp
qed

section \<open>Grouping is stable\<close>

lemma set_firstOccurrences: "set (firstOccurrences ks) = set ks"
  by (induction ks) auto

lemma distinct_firstOccurrences: "distinct (firstOccurrences ks)"
  by (induction ks) (auto simp: set_firstOccurrences)

lemma firstOccurrences_snoc:
  "firstOccurrences (ks @ [k]) =
     (if k \<in> set ks then firstOccurrences ks else firstOccurrences ks @ [k])"
  by (induction ks) auto

lemma map_has_iff: "map_has g k = (k \<in> fst ` set g)"
  by (simp add: map_has_def map_of_eq_None_iff)

lemma map_set_new: "k \<notin> fst ` set g \<Longrightarrow> map_set g k v = g @ [(k, v)]"
  by (induction g) auto

lemma get_push_last: "k \<notin> fst ` set g \<Longrightarrow> get_push (g @ [(k, v)]) k p = g @ [(k, v @ [p])]"
  by (induction g) auto

lemma get_push_map:
  "distinct (map fst g) \<Longrightarrow>
   get_push g k p = map (\<lambda>e. (fst e, if fst e = k then snd e @ [p] else snd e)) g"
proof (induction g)
  case Nil
  show ?case by simp
next
  case (Cons e g)
  obtain k' v' where e: "e = (k', v')" by (cases e)
  show ?case
  proof (cases "k' = k")
    case True
    with Cons.prems e have "k \<notin> fst ` set g" by auto
    then have "map (\<lambda>e. (fst e, if fst e = k then snd e @ [p] else snd e)) g = g"
      by (induction g) auto
    with True e show ?thesis by simp
  next
    case False
    with Cons e show ?thesis by simp
  qed
qed

lemma group_step_new:
  assumes "dueKey fmt p \<notin> fst ` set g"
  shows "group_step fmt g p = g @ [(dueKey fmt p, [p])]"
  using assms by (simp add: group_step_def Let_def map_has_iff map_set_new get_push_last)

lemma group_step_old:
  assumes "dueKey fmt p \<in> fst ` set g" "distinct (map fst g)"
  shows "group_step fmt g p =
           map (\<lambda>e. (fst e, if fst e = dueKey fmt p then snd e @ [p] else snd e)) g"
  using assms by (simp add: group_step_def Let_def map_has_iff get_push_map)

lemma keys_stableGroups: "map fst (stableGroups fmt items) = firstOccurrences (map (dueKey fmt) items)"
  by (simp add: stableGroups_def comp_def)

lemma stableGroups_snoc: "stableGroups fmt (xs @ [x]) = group_step fmt (stableGroups fmt xs) x"
proof (cases "dueKey fmt x \<in> dueKey fmt ` set xs")
  case True
  then have in_keys: "dueKey fmt x \<in> fst ` set (stableGroups fmt xs)"
    by (simp add: stableGroups_def image_image set_firstOccurrences)
  have dist: "distinct (map fst (stableGroups fmt xs))"
    by (simp add: keys_stableGroups distinct_firstOccurrences)
  from True show ?thesis
    unfolding group_step_old [OF in_keys dist]
    by (simp add: stableGroups_def firstOccurrences_snoc)
next
  case False
  then have not_in: "dueKey fmt x \<notin> fst ` set (stableGroups fmt xs)"
    by (simp add: stableGroups_def image_image set_firstOccurrences)
  have none: "filter (\<lambda>p. dueKey fmt p = dueKey fmt x) xs = []"
    using False by (force simp: filter_empty_conv image_iff)
  have fresh: "\<forall>k\<in>set (firstOccurrences (map (dueKey fmt) xs)). dueKey fmt x \<noteq> k"
    using False by (auto simp: set_firstOccurrences)
  from False show ?thesis
    unfolding group_step_new [OF not_in]
    using fresh none by (simp add: stableGroups_def firstOccurrences_snoc)
qed

lemma groupByDueDate_snoc: "groupByDueDate fmt (xs @ [x]) = group_step fmt (groupByDueDate fmt xs) x"
  by (simp add: groupByDueDate_def)

lemma groupByDueDate_eq_stableGroups: "groupByDueDate fmt items = stableGroups fmt items"
proof (induction items rule: rev_induct)
  case Nil
  show ?case by (simp add: groupByDueDate_def stableGroups_def)
next
  case (snoc x xs)
  then show ?case by (simp add: groupByDueDate_snoc stableGroups_snoc)
qed


lemma example_groups:
  "groupByDueDate formatDateOnly [pageA, pageB, pageC] =
     [(ascii ''2024-01-02'', [pageA, pageC]), (ascii ''2024-01-01'', [pageB])]"
  by code_simp

text \<open>
  Claim C5, as stated, at its own example. The input \<open>[A(2024-01-02), B(2024-01-01),
  C(2024-01-02)]\<close> does not give the groups \<open>2024-01-01: [B]\<close> then
  \<open>2024-01-02: [A, C]\<close>: the first key met is \<open>2024-01-02\<close>, so its group comes first.
\<close>

theorem groupByDueDate_example_order:
  "map fst (groupByDueDate formatDateOnly [pageA, pageB, pageC]) =
     [ascii ''2024-01-02'', ascii ''2024-01-01''] \<and>
   groupByDueDate formatDateOnly [pageA, pageB, pageC] \<noteq>
     [(ascii ''2024-01-01'', [pageB]), (ascii ''2024-01-02'', [pageA, pageC])]"
  by code_simp

text \<open>
  Claim C5, amended. Grouping by due date is stable: the keys of the groups are the
  due-date keys of the input in the order of their first occurrence, and the members of
  each group are the records of the input with that key, in input order. For the input
  \<open>[A(2024-01-02), B(2024-01-01), C(2024-01-02)]\<close> the groups are, in order,
  \<open>2024-01-02: [A, C]\<close> (A before C) and then \<open>2024-01-01: [B]\<close>.
\<close>

theorem groupByDueDate_stable:
  "groupByDueDate fmt items = stableGroups fmt items \<and>
   map fst (groupByDueDate fmt items) = firstOccurrences (map (dueKey fmt) items) \<and>
   (\<forall>g\<in>set (groupByDueDate fmt items).
      snd g = filter (\<lambda>p. dueKey fmt p = fst g) items) \<and>
   groupByDueDate formatDateOnly [pageA, pageB, pageC] =
     [(ascii ''2024-01-02'', [pageA, pageC]), (ascii ''2024-01-01'', [pageB])]"
proof (intro conjI)
  show "groupByDueDate fmt items = stableGroups fmt items"
    by (rule groupByDueDate_eq_stableGroups)
  show "map fst (groupByDueDate fmt items) = firstOccurrences (map (dueKey fmt) items)"
    by (simp add: groupByDueDate_eq_stableGroups keys_stableGroups)
  show "\<forall>g\<in>set (groupByDueDate fmt items). snd g = filter (\<lambda>p. dueKey fmt p = fst g) items"
    by (auto simp: groupByDueDate_eq_stableGroups stableGroups_def)
  show "groupByDueDate formatDateOnly [pageA, pageB, pageC] =
     [(ascii ''2024-01-02'', [pageA, pageC]), (ascii ''2024-01-01'', [pageB])]"
    by (rule example_groups)
qed

theorem groupByDueDate_stable_witness:
  "(ascii ''2024-01-02'', [pageA, pageC]) \<in> set (groupByDueDate formatDateOnly [pageA, pageB, pageC]) \<and>
   [pageA, pageC] = filter (\<lambda>p. dueKey formatDateOnly p = ascii ''2024-01-02'') [pageA, pageB, pageC]"
proof -
  have m: "(ascii ''2024-01-02'', [pageA, pageC]) \<in> set (groupByDueDate formatDateOnly [pageA, pageB, pageC])"
    by (simp add: example_groups)
  from groupByDueDate_stable [of formatDateOnly "[pageA, pageB, pageC]"]
  have "\<forall>g\<in>set (groupByDueDate formatDateOnly [pageA, pageB, pageC]).
          snd g = filter (\<lambda>p. dueKey formatDateOnly p = fst g) [pageA, pageB, pageC]"
    by blast
  from this m have "snd (ascii ''2024-01-02'', [pageA, pageC]) =
      filter (\<lambda>p. dueKey formatDateOnly p = fst (ascii ''2024-01-02'', [pageA, pageC])) [pageA, pageB, pageC]"
    by (rule bspec)
  with m show ?thesis by simp
qed

section \<open>Traces of the delivery functions\<close>

lemma postMessage_fst: "fst (postMessage w c t tr) = tr @ [ChatPostMessage c t]"
  by (simp add: postMessage_def split: option.splits)

lemma openBotDmWithUser_fst:
  "slack cfg \<Longrightarrow> fst (openBotDmWithUser cfg w u tr) = tr @ [ConversationsOpen u]"
  by (simp add: openBotDmWithUser_def split: sum.splits)

lemma startsWith_D_U: "startsWith t (ascii ''D'') \<Longrightarrow> \<not> startsWith t (ascii ''U'')"
  by (cases t) (auto simp: startsWith_def ascii_def)

lemma dmTarget_events:
  assumes "dmTarget cfg w t msg tr = (tr', r)"
  shows "\<exists>evs. tr' = tr @ evs \<and> (\<forall>e\<in>set evs. isDmCall e \<and> dmEvent msg e)"
proof (cases "slack cfg")
  case False
  with assms show ?thesis by (simp add: dmTarget_def)
next
  case True
  show ?thesis
  proof (cases "startsWith t (ascii ''D'')")
    case D: True
    with True assms have "tr' = tr @ [ChatPostMessage t msg]"
      using postMessage_fst [of w t msg tr] by (simp add: dmTarget_def)
    then show ?thesis by simp
  next
    case notD: False
    show ?thesis
    proof (cases "startsWith t (ascii ''U'')")
      case False
      with True notD assms show ?thesis by (simp add: dmTarget_def)
    next
      case U: True
      obtain tr1 r1 where o: "openBotDmWithUser cfg w t tr = (tr1, r1)"
        by (cases "openBotDmWithUser cfg w t tr")
      with True have tr1: "tr1 = tr @ [ConversationsOpen t]"
        using openBotDmWithUser_fst [of cfg w t tr] by simp
      show ?thesis
      proof (cases r1)
        case (Inl e)
        with True notD U o assms tr1 have "tr' = tr @ [ConversationsOpen t]"
          by (simp add: dmTarget_def)
        then show ?thesis by simp
      next
        case (Inr c)
        with True notD U o assms tr1 have "tr' = tr @ [ConversationsOpen t, ChatPostMessage c msg]"
          using postMessage_fst [of w c msg tr1] by (simp add: dmTarget_def)
        then show ?thesis by simp
      qed
    qed
  qed
qed


lemma dmLoop_events:
  "dmLoop cfg w msg ts n tr = (tr', r) \<Longrightarrow>
   \<exists>evs. tr' = tr @ evs \<and> (\<forall>e\<in>set evs. dmEvent msg e)"
proof (induction ts arbitrary: n tr)
  case Nil
  then show ?case by simp
next
  case (Cons t ts)
  obtain tr1 r1 where d: "dmTarget cfg w t msg tr = (tr1, r1)"
    by (cases "dmTarget cfg w t msg tr")
  from dmTarget_events [OF d] obtain evs1 where
    e1: "tr1 = tr @ evs1" "\<forall>e\<in>set evs1. isDmCall e \<and> dmEvent msg e" by blast
  show ?case
  proof (cases r1)
    case (Inl e)
    with Cons.prems d have "tr' = tr1" by simp
    with e1 show ?thesis by blast
  next
    case (Inr u)
    with Cons.prems d have "dmLoop cfg w msg ts (n + 1) (tr1 @ [Timeout 1100]) = (tr', r)"
      by simp
    from Cons.IH [OF this] obtain evs2 where
      e2: "tr' = (tr1 @ [Timeout 1100]) @ evs2" "\<forall>e\<in>set evs2. dmEvent msg e" by blast
    with e1 have "tr' = tr @ (evs1 @ [Timeout 1100] @ evs2)"
      "\<forall>e\<in>set (evs1 @ [Timeout 1100] @ evs2). dmEvent msg e" by auto
    then show ?thesis by blast
  qed
qed


lemma fetchDueItems_Inr:
  assumes "fetchDueItems cfg w tr = (tr', Inr items)"
  shows "tr' = tr @ [NotionQuery] \<and>
         (\<exists>rs. notion_query w = Inr rs \<and>
            items = filter (\<lambda>p. getStatusName p PROP_STATUS \<noteq> DONE_STATUS_NAME cfg)
                      (case rs of None \<Rightarrow> [] | Some r \<Rightarrow> r))"
  using assms by (auto simp: fetchDueItems_def split: sum.splits)

lemma fetchDueItems_fst: "fst (fetchDueItems cfg w tr) = tr @ [NotionQuery]"
  by (simp add: fetchDueItems_def split: sum.splits)

lemma postToSlackWebhook_fst:
  "fst (postToSlackWebhook cfg w t tr) =
     (if SLACK_WEBHOOK_URL cfg = [] then tr else tr @ [WebhookPost (SLACK_WEBHOOK_URL cfg) t])"
  by (simp add: postToSlackWebhook_def split: sum.splits)

lemma postToSlackWebhook_Inr:
  "postToSlackWebhook cfg w t tr = (tr', Inr b) \<Longrightarrow> b = (SLACK_WEBHOOK_URL cfg \<noteq> [])"
  by (auto simp: postToSlackWebhook_def split: sum.splits if_splits)

lemma channelStep_fst: "fst (channelStep cfg w items m tr) = tr @ channelEvents cfg items m"
  by (simp add: channelStep_def channelEvents_def postToSlackWebhook_fst)

lemma channelStep_Inr:
  "channelStep cfg w items m tr = (tr', Inr b) \<Longrightarrow>
     b = (SLACK_WEBHOOK_URL cfg \<noteq> [] \<and> (items \<noteq> [] \<or> POST_WHEN_EMPTY cfg))"
  by (auto simp: channelStep_def dest: postToSlackWebhook_Inr split: if_splits)


lemma main_channel_failed:
  assumes "fetchDueItems cfg w [] = (tr0, Inr items)"
    and "channelStep cfg w items (formatDigest cfg fmt items) tr0 = (tr1, Inl e)"
  shows "main cfg w fmt = (tr1, Inl e)"
  using assms by (simp add: main_def channelStep_def Let_def)

lemma main_no_dms:
  assumes "fetchDueItems cfg w [] = (tr0, Inr items)"
    and "channelStep cfg w items (formatDigest cfg fmt items) tr0 = (tr1, Inr b)"
    and "items = [] \<or> DM_TARGETS cfg = []"
  shows "main cfg w fmt = (tr1, Inr \<lparr>dueCount = length items, channelPosted = b, dmsSent = 0\<rparr>)"
  using assms by (auto simp: main_def channelStep_def Let_def)

lemma main_no_token:
  assumes "fetchDueItems cfg w [] = (tr0, Inr items)"
    and "channelStep cfg w items (formatDigest cfg fmt items) tr0 = (tr1, Inr b)"
    and "items \<noteq> []" "DM_TARGETS cfg \<noteq> []" "\<not> slack cfg"
  shows "main cfg w fmt = (tr1, Inl DmTargetsWithoutBotToken)"
  using assms by (auto simp: main_def channelStep_def Let_def)

lemma main_dms:
  assumes "fetchDueItems cfg w [] = (tr0, Inr items)"
    and "channelStep cfg w items (formatDigest cfg fmt items) tr0 = (tr1, Inr b)"
    and "items \<noteq> []" "DM_TARGETS cfg \<noteq> []" "slack cfg"
  shows "main cfg w fmt =
           (case dmLoop cfg w (formatDigest cfg fmt items) (DM_TARGETS cfg) 0 tr1 of
              (tr2, Inl e) \<Rightarrow> (tr2, Inl e)
            | (tr2, Inr sent) \<Rightarrow>
                (tr2, Inr \<lparr>dueCount = length items, channelPosted = b, dmsSent = sent\<rparr>))"
  using assms by (auto simp: main_def channelStep_def Let_def)

lemma main_trace:
  assumes f: "fetchDueItems cfg w [] = (tr0, Inr items)"
  shows "\<exists>evs. fst (main cfg w fmt) =
                 [NotionQuery] @ channelEvents cfg items (formatDigest cfg fmt items) @ evs \<and>
               (\<forall>e\<in>set evs. dmEvent (formatDigest cfg fmt items) e)"
proof -
  let ?m = "formatDigest cfg fmt items"
  from f have tr0: "tr0 = [NotionQuery]"
    using fetchDueItems_fst [of cfg w "[]"] by simp
  obtain tr1 r1 where c: "channelStep cfg w items ?m tr0 = (tr1, r1)"
    by (cases "channelStep cfg w items ?m tr0")
  with tr0 have tr1: "tr1 = [NotionQuery] @ channelEvents cfg items ?m"
    using channelStep_fst [of cfg w items ?m tr0] by simp
  show ?thesis
  proof (cases r1)
    case (Inl e)
    with main_channel_failed [OF f] c have "fst (main cfg w fmt) = tr1" by simp
    with tr1 show ?thesis by simp
  next
    case (Inr b)
    note cb = c [unfolded Inr]
    show ?thesis
    proof (cases "items = [] \<or> DM_TARGETS cfg = []")
      case True
      from main_no_dms [OF f cb True] tr1 show ?thesis by simp
    next
      case False
      then have ne: "items \<noteq> []" "DM_TARGETS cfg \<noteq> []" by auto
      show ?thesis
      proof (cases "slack cfg")
        case False
        from main_no_token [OF f cb ne False] tr1 show ?thesis by simp
      next
        case True
        obtain tr2 r2 where l: "dmLoop cfg w ?m (DM_TARGETS cfg) 0 tr1 = (tr2, r2)"
          by (cases "dmLoop cfg w ?m (DM_TARGETS cfg) 0 tr1")
        from dmLoop_events [OF l] obtain evs where
          e: "tr2 = tr1 @ evs" "\<forall>e\<in>set evs. dmEvent ?m e" by blast
        from main_dms [OF f cb ne True] l have "fst (main cfg w fmt) = tr2"
          by (simp split: sum.splits)
        with e tr1 show ?thesis by simp
      qed
    qed
  qed
qed

lemma dmEvent_not_webhook: "dmEvent m e \<Longrightarrow> \<not> isWebhookPost e"
  by (cases e) auto

lemma dmEvent_sentText: "dmEvent m e \<Longrightarrow> sentText e = Some t \<Longrightarrow> t = m"
  by (cases e) auto


lemma filter_webhook_dm: "\<forall>e\<in>set evs. dmEvent m e \<Longrightarrow> filter isWebhookPost evs = []"
  by (auto simp: filter_empty_conv dest: dmEvent_not_webhook)

lemma main_webhook_posts:
  assumes f: "fetchDueItems cfg w [] = (tr0, Inr items)"
  shows "filter isWebhookPost (fst (main cfg w fmt)) =
           channelEvents cfg items (formatDigest cfg fmt items)"
proof -
  from main_trace [OF f, of fmt] obtain evs where
    e: "fst (main cfg w fmt) = [NotionQuery] @ channelEvents cfg items (formatDigest cfg fmt items) @ evs"
       "\<forall>e\<in>set evs. dmEvent (formatDigest cfg fmt items) e" by blast
  from e(2) have "filter isWebhookPost evs = []" by (rule filter_webhook_dm)
  with e(1) show ?thesis by (simp add: channelEvents_def)
qed

section \<open>Pacing of the DM loop\<close>

lemma main_Inr_fetch:
  assumes "main cfg w fmt = (tr, Inr r)"
  obtains tr0 items tr1 b where
    "fetchDueItems cfg w [] = (tr0, Inr items)"
    "channelStep cfg w items (formatDigest cfg fmt items) tr0 = (tr1, Inr b)"
proof -
  obtain tr0 r0 where f: "fetchDueItems cfg w [] = (tr0, r0)"
    by (cases "fetchDueItems cfg w []")
  from assms f obtain items where i: "r0 = Inr items"
    by (cases r0) (auto simp: main_def)
  obtain tr1 r1 where c: "channelStep cfg w items (formatDigest cfg fmt items) tr0 = (tr1, r1)"
    by (cases "channelStep cfg w items (formatDigest cfg fmt items) tr0")
  from assms main_channel_failed [OF f [unfolded i]] c obtain b where "r1 = Inr b"
    by (cases r1) auto
  with f i c that show thesis by blast
qed





section \<open>Gating of the deliveries\<close>

text \<open>
  Claim C2, as stated, at a run with DM targets configured, no bot token and no due
  item (the only record is Done): the run completes with exit status 0.
\<close>

theorem missing_token_zero_items:
  "DM_TARGETS noTokenConfig \<noteq> [] \<and> SLACK_BOT_TOKEN noTokenConfig = [] \<and>
   snd (main noTokenConfig (okWorld [pageDone]) formatDateOnly) =
     Inr \<lparr>dueCount = 0, channelPosted = True, dmsSent = 0\<rparr> \<and>
   exitCode (main noTokenConfig (okWorld [pageDone]) formatDateOnly) = 0"
  by code_simp

text \<open>
  Claim C2, amended. With at least one DM target configured and the bot token missing,
  a run in which at least one item is due fails (exit status 1) without any DM call:
  with the configuration error once the channel step has completed, and with the channel
  step's own error when that step fails first. When no item is due the DM block is
  skipped: the run fails only if the channel step does, and otherwise completes.
\<close>

theorem missing_token_fatal_when_due:
  assumes t: "DM_TARGETS cfg \<noteq> []" and s: "SLACK_BOT_TOKEN cfg = []"
    and f: "fetchDueItems cfg w [] = (tr0, Inr items)"
  shows "(items \<noteq> [] \<longrightarrow>
            exitCode (main cfg w fmt) = 1 \<and>
            filter isDmCall (fst (main cfg w fmt)) = [] \<and>
            snd (main cfg w fmt) =
              (case snd (channelStep cfg w items (formatDigest cfg fmt items) tr0) of
                 Inl e \<Rightarrow> Inl e | Inr b \<Rightarrow> Inl DmTargetsWithoutBotToken)) \<and>
         (items = [] \<longrightarrow>
            snd (main cfg w fmt) =
              (case snd (channelStep cfg w items (formatDigest cfg fmt items) tr0) of
                 Inl e \<Rightarrow> Inl e
               | Inr b \<Rightarrow> Inr \<lparr>dueCount = 0, channelPosted = b, dmsSent = 0\<rparr>))"
proof -
  let ?m = "formatDigest cfg fmt items"
  from s have ns: "\<not> slack cfg" by (simp add: slack_def)
  from f have tr0: "tr0 = [NotionQuery]"
    using fetchDueItems_fst [of cfg w "[]"] by simp
  obtain tr1 r1 where c: "channelStep cfg w items ?m tr0 = (tr1, r1)"
    by (cases "channelStep cfg w items ?m tr0")
  with tr0 have tr1: "tr1 = [NotionQuery] @ channelEvents cfg items ?m"
    using channelStep_fst [of cfg w items ?m tr0] by simp
  then have nodm: "filter isDmCall tr1 = []"
    by (simp add: channelEvents_def)
  show ?thesis
  proof (cases r1)
    case (Inl e)
    from main_channel_failed [OF f c [unfolded Inl]] c Inl nodm show ?thesis
      by (auto simp: exitCode_def)
  next
    case (Inr b)
    note cb = c [unfolded Inr]
    show ?thesis
    proof (cases "items = []")
      case True
      then have "items = [] \<or> DM_TARGETS cfg = []" by simp
      from main_no_dms [OF f cb this] c Inr True show ?thesis by simp
    next
      case False
      from main_no_token [OF f cb False t ns] c Inr False nodm show ?thesis
        by (simp add: exitCode_def)
    qed
  qed
qed

theorem missing_token_fatal_when_due_witness:
  "DM_TARGETS noTokenConfig \<noteq> [] \<and> SLACK_BOT_TOKEN noTokenConfig = [] \<and>
   fetchDueItems noTokenConfig (okWorld [pageA]) [] = ([NotionQuery], Inr [pageA]) \<and>
   exitCode (main noTokenConfig (okWorld [pageA]) formatDateOnly) = 1 \<and>
   snd (main noTokenConfig (okWorld [pageA]) formatDateOnly) = Inl DmTargetsWithoutBotToken"
proof -
  have t: "DM_TARGETS noTokenConfig \<noteq> []" by code_simp
  have s: "SLACK_BOT_TOKEN noTokenConfig = []" by code_simp
  have f: "fetchDueItems noTokenConfig (okWorld [pageA]) [] = ([NotionQuery], Inr [pageA])"
    by code_simp
  have c: "snd (channelStep noTokenConfig (okWorld [pageA]) [pageA]
                  (formatDigest noTokenConfig formatDateOnly [pageA]) [NotionQuery]) = Inr True"
    by code_simp
  from missing_token_fatal_when_due [OF t s f, of formatDateOnly] c t s f
  show ?thesis by simp
qed

text \<open>
  Claim C3, as stated, at a run with one due item and \<open>postWhenEmpty\<close> true but no
  webhook URL: the gate is open and still nothing is posted to the channel.
\<close>

theorem channel_gate_without_webhook:
  "POST_WHEN_EMPTY noWebhookConfig \<and>
   fetchDueItems noWebhookConfig (okWorld [pageA]) [] = ([NotionQuery], Inr [pageA]) \<and>
   filter isWebhookPost (fst (main noWebhookConfig (okWorld [pageA]) formatDateOnly)) = [] \<and>
   snd (main noWebhookConfig (okWorld [pageA]) formatDateOnly) =
     Inr \<lparr>dueCount = 1, channelPosted = False, dmsSent = 3\<rparr>"
  by code_simp

text \<open>
  Claim C3, amended. After a successful query the shared channel is posted to (once,
  with the digest) if and only if a webhook URL is configured and there is at least one
  due item or \<open>postWhenEmpty\<close> is true; a run that completes reports
  \<open>channelPosted\<close> accordingly. With \<open>postWhenEmpty\<close> false and no due item the
  run completes with the channel counted as not posted. \<open>postWhenEmpty\<close> is true when
  the variable is unset.
\<close>

theorem channel_post_gating:
  assumes f: "fetchDueItems cfg w [] = (tr0, Inr items)"
  shows "filter isWebhookPost (fst (main cfg w fmt)) =
           (if SLACK_WEBHOOK_URL cfg \<noteq> [] \<and> (items \<noteq> [] \<or> POST_WHEN_EMPTY cfg)
            then [WebhookPost (SLACK_WEBHOOK_URL cfg) (formatDigest cfg fmt items)] else []) \<and>
         (\<forall>r. snd (main cfg w fmt) = Inr r \<longrightarrow>
            channelPosted r = (SLACK_WEBHOOK_URL cfg \<noteq> [] \<and> (items \<noteq> [] \<or> POST_WHEN_EMPTY cfg))) \<and>
         (\<not> POST_WHEN_EMPTY cfg \<and> items = [] \<longrightarrow>
            main cfg w fmt = ([NotionQuery], Inr \<lparr>dueCount = 0, channelPosted = False, dmsSent = 0\<rparr>)) \<and>
         env_POST_WHEN_EMPTY None = True"
proof (intro conjI allI impI)
  show "filter isWebhookPost (fst (main cfg w fmt)) =
           (if SLACK_WEBHOOK_URL cfg \<noteq> [] \<and> (items \<noteq> [] \<or> POST_WHEN_EMPTY cfg)
            then [WebhookPost (SLACK_WEBHOOK_URL cfg) (formatDigest cfg fmt items)] else [])"
    using main_webhook_posts [OF f, of fmt] by (simp add: channelEvents_def)
next
  fix r assume r: "snd (main cfg w fmt) = Inr r"
  then have m: "main cfg w fmt = (fst (main cfg w fmt), Inr r)"
    by (metis prod.collapse)
  from m obtain tr0' items' tr1 b where
    f': "fetchDueItems cfg w [] = (tr0', Inr items')" and
    c: "channelStep cfg w items' (formatDigest cfg fmt items') tr0' = (tr1, Inr b)"
    by (rule main_Inr_fetch)
  from f f' have same: "items' = items" "tr0' = tr0" by simp_all
  note b = channelStep_Inr [OF c [unfolded same]]
  have "channelPosted r = b"
  proof (cases "items = [] \<or> DM_TARGETS cfg = []")
    case True
    from main_no_dms [OF f c [unfolded same] True] r show ?thesis by auto
  next
    case False
    then have ne: "items \<noteq> []" "DM_TARGETS cfg \<noteq> []" by auto
    have s: "slack cfg"
    proof (rule ccontr)
      assume "\<not> slack cfg"
      from main_no_token [OF f c [unfolded same] ne this] r show False by simp
    qed
    from main_dms [OF f c [unfolded same] ne s] r show ?thesis
      by (auto split: prod.splits sum.splits)
  qed
  with b show "channelPosted r = (SLACK_WEBHOOK_URL cfg \<noteq> [] \<and> (items \<noteq> [] \<or> POST_WHEN_EMPTY cfg))"
    by simp
next
  assume a: "\<not> POST_WHEN_EMPTY cfg \<and> items = []"
  from f have tr0: "tr0 = [NotionQuery]"
    using fetchDueItems_fst [of cfg w "[]"] by simp
  from a have c: "channelStep cfg w items (formatDigest cfg fmt items) tr0 = (tr0, Inr False)"
    by (simp add: channelStep_def)
  from a have "items = [] \<or> DM_TARGETS cfg = []" by simp
  from main_no_dms [OF f c this] a tr0
  show "main cfg w fmt = ([NotionQuery], Inr \<lparr>dueCount = 0, channelPosted = False, dmsSent = 0\<rparr>)"
    by simp
next
  show "env_POST_WHEN_EMPTY None = True"
    by (simp add: env_POST_WHEN_EMPTY_def orDefault_def toLowerCase_def ascii_def)
qed

theorem channel_post_gating_witness:
  "fetchDueItems quietConfig (okWorld [pageDone]) [] = ([NotionQuery], Inr []) \<and>
   \<not> POST_WHEN_EMPTY quietConfig \<and>
   main quietConfig (okWorld [pageDone]) formatDateOnly =
     ([NotionQuery], Inr \<lparr>dueCount = 0, channelPosted = False, dmsSent = 0\<rparr>) \<and>
   fetchDueItems quietConfig (okWorld [pageA]) [] = ([NotionQuery], Inr [pageA]) \<and>
   filter isWebhookPost (fst (main quietConfig (okWorld [pageA]) formatDateOnly)) =
     [WebhookPost (SLACK_WEBHOOK_URL quietConfig) (formatDigest quietConfig formatDateOnly [pageA])]"
proof -
  have f0: "fetchDueItems quietConfig (okWorld [pageDone]) [] = ([NotionQuery], Inr [])"
    by code_simp
  have f1: "fetchDueItems quietConfig (okWorld [pageA]) [] = ([NotionQuery], Inr [pageA])"
    by code_simp
  have q: "\<not> POST_WHEN_EMPTY quietConfig" by code_simp
  have u: "SLACK_WEBHOOK_URL quietConfig \<noteq> []" by code_simp
  from channel_post_gating [OF f0, of formatDateOnly] q
  have a: "main quietConfig (okWorld [pageDone]) formatDateOnly =
     ([NotionQuery], Inr \<lparr>dueCount = 0, channelPosted = False, dmsSent = 0\<rparr>)"
    by simp
  from channel_post_gating [OF f1, of formatDateOnly] u
  have b: "filter isWebhookPost (fst (main quietConfig (okWorld [pageA]) formatDateOnly)) =
     [WebhookPost (SLACK_WEBHOOK_URL quietConfig) (formatDigest quietConfig formatDateOnly [pageA])]"
    by simp
  from f0 f1 q a b show ?thesis by simp
qed

section \<open>Done filtering and the empty digest\<close>

lemma digestLines_members:
  assumes "l \<in> set (digestLines (groupByDueDate fmt items))"
  shows "(\<exists>k. l = [0x0A] @ ascii ''*'' @ k @ ascii ''*'') \<or> (\<exists>p\<in>set items. l = itemLine p)"
  using assms
  by (auto simp: digestLines_def groupLines_def groupByDueDate_eq_stableGroups stableGroups_def)

text \<open>
  Claim C4. No record whose extracted status name equals \<open>DONE_STATUS_NAME\<close> is in
  the sequence that \<open>fetchDueItems\<close> returns, whatever the query returned, and hence
  none is a member of a group of the digest built from that sequence: every line of the
  digest is a date line or the line of a record that is not Done. The comparison is
  equality of strings (case-sensitive), and the name is \<^verbatim>\<open>Done\<close> when the
  variable is unset.
\<close>

theorem done_items_filtered:
  assumes f: "fetchDueItems cfg w tr = (tr', Inr items)"
  shows "(\<forall>p\<in>set items. getStatusName p PROP_STATUS \<noteq> DONE_STATUS_NAME cfg) \<and>
         (\<forall>g\<in>set (groupByDueDate fmt items). \<forall>p\<in>set (snd g).
             getStatusName p PROP_STATUS \<noteq> DONE_STATUS_NAME cfg) \<and>
         (\<forall>l\<in>set (digestLines (groupByDueDate fmt items)).
             (\<exists>k. l = [0x0A] @ ascii ''*'' @ k @ ascii ''*'') \<or>
             (\<exists>p\<in>set items. l = itemLine p \<and>
                getStatusName p PROP_STATUS \<noteq> DONE_STATUS_NAME cfg)) \<and>
         (\<forall>rs. notion_query w = Inr (Some rs) \<longrightarrow>
             items = filter (\<lambda>p. getStatusName p PROP_STATUS \<noteq> DONE_STATUS_NAME cfg) rs) \<and>
         env_DONE_STATUS_NAME None = ascii ''Done''"
proof (intro conjI)
  from fetchDueItems_Inr [OF f] obtain rs where
    rs: "notion_query w = Inr rs"
        "items = filter (\<lambda>p. getStatusName p PROP_STATUS \<noteq> DONE_STATUS_NAME cfg)
                   (case rs of None \<Rightarrow> [] | Some r \<Rightarrow> r)"
    by blast
  from rs(2) show a: "\<forall>p\<in>set items. getStatusName p PROP_STATUS \<noteq> DONE_STATUS_NAME cfg"
    by simp
  show "\<forall>g\<in>set (groupByDueDate fmt items). \<forall>p\<in>set (snd g).
             getStatusName p PROP_STATUS \<noteq> DONE_STATUS_NAME cfg"
  proof (intro ballI)
    fix g p assume "g \<in> set (groupByDueDate fmt items)" "p \<in> set (snd g)"
    then have "p \<in> set items"
      by (auto simp: groupByDueDate_eq_stableGroups stableGroups_def)
    with a show "getStatusName p PROP_STATUS \<noteq> DONE_STATUS_NAME cfg" by blast
  qed
  show "\<forall>l\<in>set (digestLines (groupByDueDate fmt items)).
             (\<exists>k. l = [0x0A] @ ascii ''*'' @ k @ ascii ''*'') \<or>
             (\<exists>p\<in>set items. l = itemLine p \<and>
                getStatusName p PROP_STATUS \<noteq> DONE_STATUS_NAME cfg)"
    using digestLines_members [of _ fmt items] a by blast
  from rs show "\<forall>rs. notion_query w = Inr (Some rs) \<longrightarrow>
             items = filter (\<lambda>p. getStatusName p PROP_STATUS \<noteq> DONE_STATUS_NAME cfg) rs"
    by auto
  show "env_DONE_STATUS_NAME None = ascii ''Done''"
    by (simp add: env_DONE_STATUS_NAME_def orDefault_def)
qed

theorem done_items_filtered_witness:
  "fetchDueItems exampleConfig (okWorld [pageA, pageDone, pageC]) [] =
     ([NotionQuery], Inr [pageA, pageC]) \<and>
   getStatusName pageDone PROP_STATUS = DONE_STATUS_NAME exampleConfig \<and>
   getStatusName pageA PROP_STATUS \<noteq> DONE_STATUS_NAME exampleConfig \<and>
   getStatusName pageC PROP_STATUS \<noteq> DONE_STATUS_NAME exampleConfig \<and>
   getStatusName pageC PROP_STATUS = ascii ''done''"
proof -
  have f: "fetchDueItems exampleConfig (okWorld [pageA, pageDone, pageC]) [] =
     ([NotionQuery], Inr [pageA, pageC])"
    by code_simp
  have d: "getStatusName pageDone PROP_STATUS = DONE_STATUS_NAME exampleConfig"
    by code_simp
  have c: "getStatusName pageC PROP_STATUS = ascii ''done''"
    by code_simp
  from done_items_filtered [OF f, of formatDateOnly] f d c show ?thesis
    by simp
qed

text \<open>
  Claim C6. For the empty input \<open>formatDigest\<close> returns a fixed two-line string with
  the lookahead rendered twice, but not the string of the specification: the header
  starts with the four code units U+00F0 U+0178 U+201D U+201D where the specification
  has the bell U+1F514, and the second line with U+00E2 U+0153 U+2026 where the
  specification has the check mark U+2705. Evaluated for every configuration and at a
  lookahead of 7 days.
\<close>

theorem formatDigest_empty_code_units:
  "formatDigest cfg fmt [] =
     [0xF0, 0x178, 0x201D, 0x201D] @ ascii '' *Privacy & Security Reminders* (next ''
       @ toString (LOOKAHEAD_DAYS cfg) @ ascii '' days)'' @ [0x0A] @ [0xE2, 0x153, 0x2026]
       @ ascii '' Nothing due in the next '' @ toString (LOOKAHEAD_DAYS cfg) @ ascii '' days.'' \<and>
   formatDigest cfg fmt [] \<noteq> specEmptyDigest (LOOKAHEAD_DAYS cfg) \<and>
   formatDigest exampleConfig fmt [] =
     [0xF0, 0x178, 0x201D, 0x201D] @ ascii '' *Privacy & Security Reminders* (next 7 days)''
       @ [0x0A] @ [0xE2, 0x153, 0x2026] @ ascii '' Nothing due in the next 7 days.'' \<and>
   specEmptyDigest (Num 7) =
     [0xD83D, 0xDD14] @ ascii '' *Privacy & Security Reminders* (next 7 days)''
       @ [0x0A] @ [0x2705] @ ascii '' Nothing due in the next 7 days.''"
proof (intro conjI)
  show "formatDigest cfg fmt [] =
     [0xF0, 0x178, 0x201D, 0x201D] @ ascii '' *Privacy & Security Reminders* (next ''
       @ toString (LOOKAHEAD_DAYS cfg) @ ascii '' days)'' @ [0x0A] @ [0xE2, 0x153, 0x2026]
       @ ascii '' Nothing due in the next '' @ toString (LOOKAHEAD_DAYS cfg) @ ascii '' days.''"
    by (simp add: formatDigest_def header_def)
  show "formatDigest cfg fmt [] \<noteq> specEmptyDigest (LOOKAHEAD_DAYS cfg)"
    by (simp add: formatDigest_def header_def specEmptyDigest_def specHeader_def)
  have d7: "digits 7 = [0x37]"
    by (simp add: digits.simps)
  show "formatDigest exampleConfig fmt [] =
     [0xF0, 0x178, 0x201D, 0x201D] @ ascii '' *Privacy & Security Reminders* (next 7 days)''
       @ [0x0A] @ [0xE2, 0x153, 0x2026] @ ascii '' Nothing due in the next 7 days.''"
    by (simp add: formatDigest_def header_def exampleConfig_def d7 ascii_def)
  show "specEmptyDigest (Num 7) =
     [0xD83D, 0xDD14] @ ascii '' *Privacy & Security Reminders* (next 7 days)''
       @ [0x0A] @ [0x2705] @ ascii '' Nothing due in the next 7 days.''"
    by (simp add: specEmptyDigest_def specHeader_def d7 ascii_def)
qed

section \<open>DM dispatch, the missing webhook, one digest per run\<close>

text \<open>
  Claim C8. With the Slack client present (\<open>main\<close> calls \<open>dmTarget\<close> only then), the
  dispatch of a DM target is decided by its prefix. A target starting with \<open>D\<close> is
  posted to directly, with no conversation-open call. A target starting with \<open>U\<close>
  triggers exactly one conversation-open call, followed by one post to the conversation
  id it returned; when no id comes back the call fails after the open, without a post.
  Any other target raises the invalid-DM-target error without any call.
\<close>

theorem dmTarget_dispatch:
  assumes s: "slack cfg"
  shows "(startsWith t (ascii ''D'') \<longrightarrow>
            dmTarget cfg w t msg tr =
              (tr @ [ChatPostMessage t msg],
               case chat_postMessage w tr t msg of None \<Rightarrow> Inr () | Some e \<Rightarrow> Inl e)) \<and>
         (startsWith t (ascii ''U'') \<longrightarrow>
            (\<forall>c. conversations_open w tr t = Inr (Some c) \<and> c \<noteq> [] \<longrightarrow>
               dmTarget cfg w t msg tr =
                 (tr @ [ConversationsOpen t, ChatPostMessage c msg],
                  case chat_postMessage w (tr @ [ConversationsOpen t]) c msg of
                    None \<Rightarrow> Inr () | Some e \<Rightarrow> Inl e)) \<and>
            ((\<forall>c. conversations_open w tr t = Inr (Some c) \<longrightarrow> c = []) \<longrightarrow>
               fst (dmTarget cfg w t msg tr) = tr @ [ConversationsOpen t] \<and>
               (\<exists>e. snd (dmTarget cfg w t msg tr) = Inl e))) \<and>
         (\<not> startsWith t (ascii ''D'') \<and> \<not> startsWith t (ascii ''U'') \<longrightarrow>
            dmTarget cfg w t msg tr = (tr, Inl (InvalidDmTarget t)))"
proof -
  have d: "dmTarget cfg w t msg tr =
              (tr @ [ChatPostMessage t msg],
               case chat_postMessage w tr t msg of None \<Rightarrow> Inr () | Some e \<Rightarrow> Inl e)"
    if "startsWith t (ascii ''D'')"
    using s that by (simp add: dmTarget_def postMessage_def split: option.splits)
  have u1: "dmTarget cfg w t msg tr =
                 (tr @ [ConversationsOpen t, ChatPostMessage c msg],
                  case chat_postMessage w (tr @ [ConversationsOpen t]) c msg of
                    None \<Rightarrow> Inr () | Some e \<Rightarrow> Inl e)"
    if u: "startsWith t (ascii ''U'')" and o: "conversations_open w tr t = Inr (Some c) \<and> c \<noteq> []"
    for c
  proof -
    from u have nd: "\<not> startsWith t (ascii ''D'')"
      using startsWith_D_U by blast
    from s o have "openBotDmWithUser cfg w t tr = (tr @ [ConversationsOpen t], Inr c)"
      by (simp add: openBotDmWithUser_def orEmpty_def)
    with s u nd show ?thesis
      by (simp add: dmTarget_def postMessage_def split: option.splits)
  qed
  have u2: "fst (dmTarget cfg w t msg tr) = tr @ [ConversationsOpen t] \<and>
               (\<exists>e. snd (dmTarget cfg w t msg tr) = Inl e)"
    if u: "startsWith t (ascii ''U'')"
      and o: "\<forall>c. conversations_open w tr t = Inr (Some c) \<longrightarrow> c = []"
  proof -
    from u have nd: "\<not> startsWith t (ascii ''D'')"
      using startsWith_D_U by blast
    from s o have "\<exists>e. openBotDmWithUser cfg w t tr = (tr @ [ConversationsOpen t], Inl e)"
      by (auto simp: openBotDmWithUser_def orEmpty_def split: sum.splits option.splits)
    with s u nd show ?thesis
      by (auto simp: dmTarget_def)
  qed
  have x: "dmTarget cfg w t msg tr = (tr, Inl (InvalidDmTarget t))"
    if "\<not> startsWith t (ascii ''D'') \<and> \<not> startsWith t (ascii ''U'')"
    using s that by (simp add: dmTarget_def)
  from d u1 u2 x show ?thesis by blast
qed

theorem dmTarget_dispatch_witness:
  "slack exampleConfig \<and>
   dmTarget exampleConfig (okWorld []) (ascii ''D123'') (ascii ''hi'') [] =
     ([ChatPostMessage (ascii ''D123'') (ascii ''hi'')], Inr ()) \<and>
   conversations_open (okWorld []) [] (ascii ''U456'') = Inr (Some (ascii ''D900'')) \<and>
   dmTarget exampleConfig (okWorld []) (ascii ''U456'') (ascii ''hi'') [] =
     ([ConversationsOpen (ascii ''U456''), ChatPostMessage (ascii ''D900'') (ascii ''hi'')], Inr ()) \<and>
   dmTarget exampleConfig (okWorld []) (ascii ''C789'') (ascii ''hi'') [] =
     ([], Inl (InvalidDmTarget (ascii ''C789'')))"
proof -
  have s: "slack exampleConfig" by code_simp
  have d: "startsWith (ascii ''D123'') (ascii ''D'')" by code_simp
  have u: "startsWith (ascii ''U456'') (ascii ''U'')" by code_simp
  have o: "conversations_open (okWorld []) [] (ascii ''U456'') = Inr (Some (ascii ''D900''))"
    by (simp add: okWorld_def)
  have ne: "ascii ''D900'' \<noteq> []" by code_simp
  have x: "\<not> startsWith (ascii ''C789'') (ascii ''D'') \<and> \<not> startsWith (ascii ''C789'') (ascii ''U'')"
    by code_simp
  have p: "chat_postMessage (okWorld []) tr c t = None" for tr c t
    by (simp add: okWorld_def)
  from dmTarget_dispatch [OF s, where t = "ascii ''D123''" and w = "okWorld []"
      and msg = "ascii ''hi''" and tr = "[]"] d p
  have a: "dmTarget exampleConfig (okWorld []) (ascii ''D123'') (ascii ''hi'') [] =
     ([ChatPostMessage (ascii ''D123'') (ascii ''hi'')], Inr ())"
    by simp
  from dmTarget_dispatch [OF s, where t = "ascii ''U456''" and w = "okWorld []"
      and msg = "ascii ''hi''" and tr = "[]"] u o ne p
  have b: "dmTarget exampleConfig (okWorld []) (ascii ''U456'') (ascii ''hi'') [] =
     ([ConversationsOpen (ascii ''U456''), ChatPostMessage (ascii ''D900'') (ascii ''hi'')], Inr ())"
    by simp
  from dmTarget_dispatch [OF s, where t = "ascii ''C789''" and w = "okWorld []"
      and msg = "ascii ''hi''" and tr = "[]"] x
  have c: "dmTarget exampleConfig (okWorld []) (ascii ''C789'') (ascii ''hi'') [] =
     ([], Inl (InvalidDmTarget (ascii ''C789'')))"
    by simp
  from s o a b c show ?thesis by simp
qed



text \<open>
  Claim C10. Within a run every delivery carries the same string: each event of the
  trace that carries a text (the channel post and every DM post) carries
  \<open>formatDigest\<close> of the items fetched in that run.
\<close>

theorem same_digest_everywhere:
  assumes f: "fetchDueItems cfg w [] = (tr0, Inr items)"
  shows "\<forall>e\<in>set (fst (main cfg w fmt)). \<forall>t. sentText e = Some t \<longrightarrow> t = formatDigest cfg fmt items"
proof (intro ballI allI impI)
  fix e t
  assume e: "e \<in> set (fst (main cfg w fmt))" and t: "sentText e = Some t"
  from main_trace [OF f, of fmt] obtain evs where
    tr: "fst (main cfg w fmt) =
           [NotionQuery] @ channelEvents cfg items (formatDigest cfg fmt items) @ evs"
    and dm: "\<forall>e\<in>set evs. dmEvent (formatDigest cfg fmt items) e"
    by blast
  from e tr consider "e = NotionQuery"
    | "e \<in> set (channelEvents cfg items (formatDigest cfg fmt items))"
    | "e \<in> set evs"
    by auto
  then show "t = formatDigest cfg fmt items"
  proof cases
    case 1
    with t show ?thesis by simp
  next
    case 2
    with t show ?thesis by (auto simp: channelEvents_def split: if_splits)
  next
    case 3
    with dm have "dmEvent (formatDigest cfg fmt items) e" by blast
    from this t show ?thesis by (rule dmEvent_sentText)
  qed
qed

theorem same_digest_everywhere_witness:
  "fetchDueItems exampleConfig (okWorld [pageA, pageDone]) [] = ([NotionQuery], Inr [pageA]) \<and>
   map sentText (fst (main exampleConfig (okWorld [pageA, pageDone]) formatDateOnly)) =
     [None,
      Some (formatDigest exampleConfig formatDateOnly [pageA]),
      Some (formatDigest exampleConfig formatDateOnly [pageA]), None,
      None, Some (formatDigest exampleConfig formatDateOnly [pageA]), None,
      Some (formatDigest exampleConfig formatDateOnly [pageA]), None]"
proof -
  have f: "fetchDueItems exampleConfig (okWorld [pageA, pageDone]) [] = ([NotionQuery], Inr [pageA])"
    by code_simp
  have k: "map (\<lambda>e. sentText e \<noteq> None) (fst (main exampleConfig (okWorld [pageA, pageDone]) formatDateOnly)) =
     [False, True, True, False, False, True, False, True, False]"
    by code_simp
  note t = same_digest_everywhere [OF f, of formatDateOnly]
  have "map sentText (fst (main exampleConfig (okWorld [pageA, pageDone]) formatDateOnly)) =
     map (\<lambda>e. if sentText e \<noteq> None then Some (formatDigest exampleConfig formatDateOnly [pageA]) else None)
       (fst (main exampleConfig (okWorld [pageA, pageDone]) formatDateOnly))"
    using t by (intro map_cong refl) auto
  also have "\<dots> = map (\<lambda>b. if b then Some (formatDigest exampleConfig formatDateOnly [pageA]) else None)
       (map (\<lambda>e. sentText e \<noteq> None) (fst (main exampleConfig (okWorld [pageA, pageDone]) formatDateOnly)))"
    by (simp add: comp_def)
  also have "\<dots> = [None,
      Some (formatDigest exampleConfig formatDateOnly [pageA]),
      Some (formatDigest exampleConfig formatDateOnly [pageA]), None,
      None, Some (formatDigest exampleConfig formatDateOnly [pageA]), None,
      Some (formatDigest exampleConfig formatDateOnly [pageA]), None]"
    unfolding k by simp
  finally show ?thesis using f by simp
qed

end
